theory Spec2Isabelle
  imports Main
begin

section \<open>ThinkFirst AI: the conversation-context classifier and the prompt builder\<close>

text \<open>
  A shallow embedding of \<^verbatim>\<open>functions/src/gemini/geminiService.ts\<close>: the live
  \<^verbatim>\<open>analyzeContext\<close> (lines 494 to 693) and the part of \<^verbatim>\<open>chat\<close> that
  assembles \<^verbatim>\<open>systemPrompt\<close> (lines 799 to 851).

  Modelling conventions.
  \<^item> A JavaScript string is a \<^typ>\<open>string\<close>: one \<^typ>\<open>char\<close> per UTF-16 code unit, for
    text in the ASCII range. \<^verbatim>\<open>toLowerCase\<close> and \<^verbatim>\<open>trim\<close> are modelled
    on that range (letters A to Z; white space 9 to 13 and 32).
  \<^item> \<^verbatim>\<open>attemptCount: number\<close> is an \<^typ>\<open>int\<close>; the template literal renders it in
    decimal, as JavaScript does for integers of magnitude below \<open>10^21\<close>.
  \<^item> \<^verbatim>\<open>currentTopic\<close> is declared \<^verbatim>\<open>string | null\<close>, but the value the code
    stores can also be \<^verbatim>\<open>undefined\<close>, so the field has its own three-way type.
  \<^item> The optional \<^verbatim>\<open>previousContext\<close> is an \<^typ>\<open>'a option\<close>.
\<close>

subsection \<open>JavaScript string primitives\<close>

definition toLowerChar :: "char \<Rightarrow> char" where
  "toLowerChar c =
     (let n = (of_char c :: nat) in if 65 \<le> n \<and> n \<le> 90 then char_of (n + 32) else c)"

definition toLowerCase :: "string \<Rightarrow> string" where
  "toLowerCase s = map toLowerChar s"

definition isWhiteSpace :: "char \<Rightarrow> bool" where
  "isWhiteSpace c = (let n = (of_char c :: nat) in (9 \<le> n \<and> n \<le> 13) \<or> n = 32)"

definition trim :: "string \<Rightarrow> string" where
  "trim s = rev (dropWhile isWhiteSpace (rev (dropWhile isWhiteSpace s)))"

fun startsWith :: "string \<Rightarrow> string \<Rightarrow> bool" where
  "startsWith s [] = True"
| "startsWith [] (p # ps) = False"
| "startsWith (c # s) (p # ps) = (c = p \<and> startsWith s ps)"

fun includesStr :: "string \<Rightarrow> string \<Rightarrow> bool" where
  "includesStr [] p = (p = [])"
| "includesStr (c # s) p = (startsWith (c # s) p \<or> includesStr s p)"

text \<open>Cutting a string at every separator character; \<open>cur\<close> is the piece being read.
  The result always has at least one element, and an empty piece stands between two
  adjacent separators.\<close>

fun splitAcc :: "(char \<Rightarrow> bool) \<Rightarrow> string \<Rightarrow> string \<Rightarrow> string list" where
  "splitAcc isSep cur [] = [cur]"
| "splitAcc isSep cur (c # s) =
     (if isSep c then cur # splitAcc isSep [] s else splitAcc isSep (cur @ [c]) s)"

text \<open>\<^verbatim>\<open>s.split(sep)\<close> for a one-character separator (\<^verbatim>\<open>"".split(" ")\<close> is
  \<^verbatim>\<open>[""]\<close>, \<^verbatim>\<open>"a  b".split(" ")\<close> is \<^verbatim>\<open>["a", "", "b"]\<close>).\<close>

definition split :: "string \<Rightarrow> char \<Rightarrow> string list" where
  "split s sep = splitAcc (\<lambda>c. c = sep) [] s"

text \<open>\<^verbatim>\<open>xs.join(sep)\<close>.\<close>

fun join :: "string list \<Rightarrow> string \<Rightarrow> string" where
  "join [] sep = []"
| "join [w] sep = w"
| "join (w # v # ws) sep = w @ sep @ join (v # ws) sep"

subsection \<open>The data model\<close>

text \<open>The values \<^verbatim>\<open>currentTopic\<close> takes at run time.\<close>

datatype topic = Null | Undefined | Str string

text \<open>JavaScript truthiness of such a value: only a non-empty string is truthy.\<close>

fun truthy :: "topic \<Rightarrow> bool" where
  "truthy (Str s) = (s \<noteq> [])"
| "truthy Null = False"
| "truthy Undefined = False"

record ConversationContext =
  currentTopic :: topic
  attemptCount :: int
  isLearningMode :: bool

record Message =
  role :: string
  text_msg :: string

subsection \<open>The phrase tables of \<^verbatim>\<open>analyzeContext\<close>\<close>

definition weatherPatterns :: "string list" where
  "weatherPatterns =
     [''weather'', ''temperature'', ''how hot'', ''how cold'', ''climate'', ''forecast'']"

definition newsPatterns :: "string list" where
  "newsPatterns =
     [''news'', ''today's news'', ''latest news'', ''current events'', ''headlines'',
      ''what's happening'', ''news update'']"

definition solutionRequestPhrases :: "string list" where
  "solutionRequestPhrases =
     [''give me the answer'', ''give the answer'', ''just give me'', ''give me solution'',
      ''give the solution'', ''show me the answer'', ''show the solution'',
      ''what is the solution'', ''what's the solution'', ''tell me the solution'',
      ''just show me'', ''just tell me'']"

definition attemptPhrases :: "string list" where
  "attemptPhrases =
     [''i tried'', ''i think'', ''maybe'', ''is it'', ''would it be'', ''should i'', ''idk'',
      ''i don't know'', ''not sure'', ''i'm stuck'', ''can't figure'']"

definition backToPreviousPhrases :: "string list" where
  "backToPreviousPhrases = [''back to'', ''return to'', ''again about'', ''still don't get'']"

definition learningKeywords :: "string list" where
  "learningKeywords =
     [''how do i'', ''how to'', ''how about'', ''what about'', ''explain'', ''solve'',
      ''algorithm for'', ''solution for'', ''implement'']"

definition followUpKeywords :: "string list" where
  "followUpKeywords =
     [''time complexity'', ''space complexity'', ''complexity'', ''why does this'', ''why is'',
      ''can you explain more'', ''what do you mean'', ''how does that'', ''give me a hint'',
      ''give hint'', ''another hint'']"

definition chatKeywords :: "string list" where
  "chatKeywords =
     [''hello'', ''hi'', ''hey'', ''thanks'', ''thank you'', ''okay'', ''ok'', ''got it'', ''cool'']"

definition stopWords :: "string list" where
  "stopWords =
     [''how'', ''to'', ''the'', ''a'', ''an'', ''what'', ''is'', ''explain'', ''can'', ''you'',
      ''i'', ''do'', ''about'', ''for'']"

subsection \<open>The predicates computed from the lowercased, trimmed message\<close>

definition isWeatherRequest :: "string \<Rightarrow> bool" where
  "isWeatherRequest msgLower = list_ex (\<lambda>p. includesStr msgLower p) weatherPatterns"

definition isNewsRequest :: "string \<Rightarrow> bool" where
  "isNewsRequest msgLower = list_ex (\<lambda>p. includesStr msgLower p) newsPatterns"

definition isAskingForSolution :: "string \<Rightarrow> bool" where
  "isAskingForSolution msgLower = list_ex (\<lambda>phrase. includesStr msgLower phrase) solutionRequestPhrases"

definition isGenuineAttempt :: "string \<Rightarrow> bool" where
  "isGenuineAttempt msgLower = list_ex (\<lambda>phrase. includesStr msgLower phrase) attemptPhrases"

definition isReturningToPrevious :: "string \<Rightarrow> bool" where
  "isReturningToPrevious msgLower = list_ex (\<lambda>phrase. includesStr msgLower phrase) backToPreviousPhrases"

definition isNewLearningQuestion :: "string \<Rightarrow> bool" where
  "isNewLearningQuestion msgLower = list_ex (\<lambda>kw. includesStr msgLower kw) learningKeywords"

definition isFollowUp :: "string \<Rightarrow> bool" where
  "isFollowUp msgLower = list_ex (\<lambda>kw. includesStr msgLower kw) followUpKeywords"

definition isGeneralChat :: "string \<Rightarrow> bool" where
  "isGeneralChat msgLower =
     list_ex (\<lambda>kw. msgLower = kw \<or> startsWith msgLower (kw @ '' '') \<or> startsWith msgLower (kw @ ''!''))
       chatKeywords"

subsection \<open>Topic extraction\<close>

definition extractTopic :: "string \<Rightarrow> string" where
  "extractTopic msg =
     (let wordsL = split (toLowerCase msg) CHR '' '';
          meaningful = filter (\<lambda>w. \<not> List.member stopWords w \<and> length w > 3) wordsL
      in join (take 3 meaningful) '' '')"

text \<open>Modelled from the spec's words, for comparison with \<open>extractTopic\<close>: "lowercase the
  message, split on whitespace, discard a fixed stop-word set and words of length \<open>\<le> 3\<close>,
  keep the first three remaining tokens joined by spaces". It differs from the source
  only in the separator: every white-space character cuts.\<close>

definition extractTopicSpec :: "string \<Rightarrow> string" where
  "extractTopicSpec msg =
     join (take 3 (filter (\<lambda>w. \<not> List.member stopWords w \<and> 3 < length w)
                     (splitAcc isWhiteSpace [] (toLowerCase msg)))) '' ''"

subsection \<open>The decision logic\<close>

definition noContext :: ConversationContext where
  "noContext = \<lparr>currentTopic = Null, attemptCount = 0, isLearningMode = False\<rparr>"

text \<open>The topics of the user's earlier messages, oldest first, empty ones dropped.\<close>

definition previousTopics :: "Message list \<Rightarrow> string list" where
  "previousTopics conversationHistory =
     filter (\<lambda>t. length t > 0)
       (map (\<lambda>m. extractTopic (text_msg m)) (filter (\<lambda>m. role m = ''user'') conversationHistory))"

text \<open>\<^verbatim>\<open>topic.split(' ')[0]\<close>.\<close>

definition firstWord :: "string \<Rightarrow> string" where
  "firstWord t = (case split t CHR '' '' of [] \<Rightarrow> [] | w # _ \<Rightarrow> w)"

text \<open>\<^verbatim>\<open>xs[i]\<close> for an integer index: \<^verbatim>\<open>undefined\<close> outside the array.\<close>

definition at_index :: "string list \<Rightarrow> int \<Rightarrow> topic" where
  "at_index xs i = (if 0 \<le> i \<and> i < int (length xs) then Str (xs ! nat i) else Undefined)"

text \<open>\<^verbatim>\<open>previousTopics.find(...) || previousTopics[previousTopics.length - 2]\<close>.\<close>

definition relevantTopic :: "string \<Rightarrow> string list \<Rightarrow> topic" where
  "relevantTopic msgLower pts =
     (let found = (case find (\<lambda>t. includesStr msgLower (firstWord t)) pts of
                     None \<Rightarrow> Undefined | Some t \<Rightarrow> Str t)
      in if truthy found then found else at_index pts (int (length pts) - 2))"

text \<open>Rules 4 to 8 of the decision logic (source lines 645 to 692). Every guard there has a
  conjunct \<^verbatim>\<open>previousContext?.isLearningMode\<close> or \<^verbatim>\<open>previousContext?.currentTopic\<close>,
  which is \<^verbatim>\<open>undefined\<close> (falsy) for an absent context: then only the default applies.\<close>

definition laterRules :: "string \<Rightarrow> string \<Rightarrow> ConversationContext option \<Rightarrow> ConversationContext" where
  "laterRules message msgLower previousContext =
     (case previousContext of
        None \<Rightarrow> noContext
      | Some prev \<Rightarrow>
          if isFollowUp msgLower \<and> truthy (currentTopic prev) then
            \<lparr>currentTopic = currentTopic prev, attemptCount = attemptCount prev,
             isLearningMode = True\<rparr>
          else if isAskingForSolution msgLower \<and> isLearningMode prev then
            \<lparr>currentTopic = currentTopic prev, attemptCount = max (attemptCount prev) 3,
             isLearningMode = True\<rparr>
          else if isGenuineAttempt msgLower \<and> isLearningMode prev \<and> truthy (currentTopic prev) then
            \<lparr>currentTopic = currentTopic prev, attemptCount = attemptCount prev + 1,
             isLearningMode = True\<rparr>
          else if isLearningMode prev \<and> truthy (currentTopic prev) \<and> \<not> isFollowUp msgLower
                  \<and> \<not> isAskingForSolution msgLower \<and> length message > 10 then
            \<lparr>currentTopic = currentTopic prev, attemptCount = attemptCount prev + 1,
             isLearningMode = True\<rparr>
          else prev)"

definition analyzeContext ::
  "string \<Rightarrow> Message list \<Rightarrow> ConversationContext option \<Rightarrow> ConversationContext" where
  "analyzeContext message conversationHistory previousContext =
     (let msgLower = trim (toLowerCase message) in
      if isWeatherRequest msgLower \<or> isNewsRequest msgLower then
        \<lparr>currentTopic = Null, attemptCount = 0, isLearningMode = False\<rparr>
      else if isGeneralChat msgLower \<and> \<not> isNewLearningQuestion msgLower then
        \<lparr>currentTopic = Null, attemptCount = 0, isLearningMode = False\<rparr>
      else if isNewLearningQuestion msgLower \<and> \<not> isReturningToPrevious msgLower then
        \<lparr>currentTopic = Str (extractTopic message), attemptCount = 0, isLearningMode = True\<rparr>
      else if isReturningToPrevious msgLower \<and> length conversationHistory > 0 then
        (let pts = previousTopics conversationHistory in
         if length pts > 0 then
           \<lparr>currentTopic = relevantTopic msgLower pts, attemptCount = 0, isLearningMode = True\<rparr>
         else laterRules message msgLower previousContext)
      else laterRules message msgLower previousContext)"

subsection \<open>The prompt builder (\<^verbatim>\<open>systemPrompt\<close> in \<^verbatim>\<open>chat\<close>)\<close>

definition nl :: string where
  "nl = [CHR 0x0A]"

definition dq :: string where
  "dq = [CHR 0x22]"

text \<open>How a template literal renders a number and a topic.\<close>

fun showNat :: "nat \<Rightarrow> string" where
  "showNat n = (if n < 10 then [char_of (48 + n)] else showNat (n div 10) @ [char_of (48 + n mod 10)])"

definition showNumber :: "int \<Rightarrow> string" where
  "showNumber i = (if i < 0 then ''-'' @ showNat (nat (- i)) else showNat (nat i))"

fun showTopic :: "topic \<Rightarrow> string" where
  "showTopic (Str s) = s"
| "showTopic Null = ''null''"
| "showTopic Undefined = ''undefined''"

definition basePrompt :: string where
  "basePrompt =
     ''You are ThinkFirst AI, an intelligent educational assistant that adapts to the user's needs.'' @ nl @
     nl @
     ''**YOUR CORE RULES:**'' @ nl @
     ''1. **RESPOND DIRECTLY** - Give your answer immediately without explaining your thought process'' @ nl @
     ''2. **NO META-COMMENTARY** - Don't say things like '' @ dq @ ''Here's how to proceed'' @ dq @ nl @
     ''3. **BE NATURAL** - Talk like a friendly tutor, not a robot'' @ nl @
     ''4. **USE REAL-TIME DATA** - When real-time data is provided in [REAL-TIME DATA] sections, YOU MUST use it naturally in your response. NEVER say '' @ dq @ ''I don't have access to real-time data'' @ dq @ '' when data is provided.'' @ nl @
     nl @
     ''**BEHAVIOR:**'' @ nl @
     nl @
     ''**For General Chat:**'' @ nl @
     ''- Answer naturally and conversationally'' @ nl @
     ''- Be friendly and helpful''"

definition learningHeader :: "topic \<Rightarrow> int \<Rightarrow> string" where
  "learningHeader topicV attempts =
     nl @ nl @
     ''**CURRENT MODE: LEARNING MODE**'' @ nl @
     ''Topic: '' @ dq @ showTopic topicV @ dq @ nl @
     ''Attempt: '' @ showNumber attempts @ nl @
     nl @
     ''**PROGRESSIVE GUIDANCE:**'' @ nl"

definition hintDirective :: string where
  "hintDirective = ''- Set isHint: true, isSolution: false, mode: '' @ dq @ ''learning'' @ dq"

definition solutionDirective :: string where
  "solutionDirective = ''- Set isHint: false, isSolution: true, mode: '' @ dq @ ''learning'' @ dq"

definition firstTier :: string where
  "firstTier =
     ''- This is the FIRST interaction with this topic'' @ nl @
     ''- Give a conceptual hint that makes them think'' @ nl @
     ''- Ask guiding questions to assess their understanding'' @ nl @
     hintDirective"

definition secondTier :: "int \<Rightarrow> string" where
  "secondTier attempts =
     ''- This is attempt '' @ showNumber attempts @ '' (SECOND attempt)'' @ nl @
     ''- Provide stronger hints with techniques or approaches'' @ nl @
     ''- Point toward relevant concepts/algorithms'' @ nl @
     hintDirective"

definition thirdTier :: "int \<Rightarrow> string" where
  "thirdTier attempts =
     ''- This is attempt '' @ showNumber attempts @ '' (THIRD attempt)'' @ nl @
     ''- Give pseudocode or step-by-step roadmap'' @ nl @
     ''- Be explicit about the approach'' @ nl @
     hintDirective"

definition fourthTier :: "int \<Rightarrow> string" where
  "fourthTier attempts =
     ''- This is attempt '' @ showNumber attempts @ '' (FOURTH+ attempt or direct solution request)'' @ nl @
     ''- Provide COMPLETE solution with detailed explanation'' @ nl @
     ''- Include code examples with proper syntax'' @ nl @
     ''- Explain WHY each step works'' @ nl @
     solutionDirective"

definition progressiveGuidance :: "int \<Rightarrow> string" where
  "progressiveGuidance attempts =
     (if attempts = 0 then firstTier
      else if attempts = 1 then secondTier attempts
      else if attempts = 2 then thirdTier attempts
      else fourthTier attempts)"

definition importantNote :: string where
  "importantNote =
     nl @ nl @
     ''**IMPORTANT:** If user asks a follow-up question about complexity or clarification, answer directly without treating it as a new attempt.''"

definition systemPrompt :: "ConversationContext \<Rightarrow> string" where
  "systemPrompt currentContext =
     basePrompt @
     (if isLearningMode currentContext then
        learningHeader (currentTopic currentContext) (attemptCount currentContext) @
        progressiveGuidance (attemptCount currentContext) @
        importantNote
      else [])"

text \<open>Reading a piece of instruction text: which flags it tells the model to report, and
  which of the four guidance tiers it words. The markers are phrases of the four template
  literals of the source, one per tier, in the order of the tiers.\<close>

definition directsHint :: "string \<Rightarrow> bool" where
  "directsHint txt = includesStr txt ''isHint: true, isSolution: false''"

definition directsSolution :: "string \<Rightarrow> bool" where
  "directsSolution txt = includesStr txt ''isHint: false, isSolution: true''"

definition tierMarkers :: "string list" where
  "tierMarkers = [''conceptual hint'', ''stronger hints'', ''pseudocode'', ''COMPLETE solution'']"

definition tiersPresent :: "string \<Rightarrow> bool list" where
  "tiersPresent txt = map (\<lambda>marker. includesStr txt marker) tierMarkers"

declare showNat.simps [simp del]

section \<open>Auxiliary facts about the string primitives\<close>

lemma startsWith_iff: "startsWith s p \<longleftrightarrow> (\<exists>v. s = p @ v)"
  by (induction s p rule: startsWith.induct) auto

lemma includesStr_Nil: "includesStr s []"
  by (cases s) simp_all

lemma startsWith_append: "startsWith a p \<Longrightarrow> startsWith (a @ r) p"
  by (induction a p rule: startsWith.induct) simp_all

text \<open>\<open>includesStr\<close> is the substring test.\<close>

lemma includesStr_iff: "includesStr s p \<longleftrightarrow> (\<exists>u v. s = u @ p @ v)"
proof (induction s)
  case Nil
  show ?case by auto
next
  case (Cons c s)
  show ?case
  proof
    assume "includesStr (c # s) p"
    then consider "startsWith (c # s) p" | "includesStr s p" by auto
    then show "\<exists>u v. c # s = u @ p @ v"
    proof cases
      case 1
      then obtain v where "c # s = p @ v" using startsWith_iff by blast
      then have "c # s = [] @ p @ v" by simp
      then show ?thesis by blast
    next
      case 2
      then obtain u v where "s = u @ p @ v" using Cons.IH by blast
      then have "c # s = (c # u) @ p @ v" by simp
      then show ?thesis by blast
    qed
  next
    assume "\<exists>u v. c # s = u @ p @ v"
    then obtain u v where uv: "c # s = u @ p @ v" by blast
    show "includesStr (c # s) p"
    proof (cases u)
      case Nil
      then have "startsWith (c # s) p" using uv startsWith_iff by auto
      then show ?thesis by simp
    next
      case (Cons a u')
      then have "s = u' @ p @ v" using uv by simp
      then have "includesStr s p" using Cons.IH by blast
      then show ?thesis by simp
    qed
  qed
qed

text \<open>A pattern that shares no character with a non-empty middle part \<open>d\<close> cannot lie
  across it.\<close>

lemma startsWith_before:
  "startsWith (a @ d @ b) p \<Longrightarrow> d \<noteq> [] \<Longrightarrow> set d \<inter> set p = {} \<Longrightarrow> startsWith a p"
proof (induction a arbitrary: p)
  case Nil
  then obtain x d' where d: "d = x # d'" by (cases d) auto
  show ?case
  proof (cases p)
    case Nil
    then show ?thesis by simp
  next
    case (Cons q p')
    with Nil.prems(1) d have "x = q" by simp
    with Nil.prems(3) d Cons show ?thesis by auto
  qed
next
  case (Cons c a)
  show ?case
  proof (cases p)
    case Nil
    then show ?thesis by simp
  next
    case p: (Cons q p')
    from Cons.prems(1) p have cq: "c = q" and sw: "startsWith (a @ d @ b) p'" by simp_all
    from Cons.prems(3) p have "set d \<inter> set p' = {}" by auto
    with sw Cons.prems(2) have "startsWith a p'" by (rule Cons.IH)
    with cq p show ?thesis by simp
  qed
qed

lemma includesStr_around:
  assumes "d \<noteq> []" and "set d \<inter> set p = {}"
  shows "includesStr (a @ d @ b) p \<longleftrightarrow> includesStr a p \<or> includesStr b p"
proof (cases "p = []")
  case True
  then show ?thesis by (simp add: includesStr_Nil)
next
  case False
  have base: "includesStr (e @ b) p \<longleftrightarrow> includesStr b p" if "set e \<inter> set p = {}" for e
    using that
  proof (induction e)
    case Nil
    show ?case by simp
  next
    case (Cons x e)
    have "\<not> startsWith (x # e @ b) p"
    proof
      assume "startsWith (x # e @ b) p"
      with False obtain p' where "p = x # p'" by (cases p) auto
      with Cons.prems show False by auto
    qed
    moreover have "includesStr (e @ b) p \<longleftrightarrow> includesStr b p"
      using Cons.prems by (intro Cons.IH) auto
    ultimately show ?case by simp
  qed
  show ?thesis
  proof (induction a)
    case Nil
    show ?case using base [OF assms(2)] False by simp
  next
    case (Cons c a)
    have "startsWith (c # a @ d @ b) p \<longleftrightarrow> startsWith (c # a) p"
      using startsWith_before [of "c # a" d b p] startsWith_append [of "c # a" p "d @ b"] assms
      by auto
    with Cons.IH show ?case by auto
  qed
qed

subsection \<open>Splitting and joining\<close>

lemma splitAcc_nonempty: "splitAcc isSep cur s \<noteq> []"
  by (induction s arbitrary: cur) simp_all

lemma join_Cons: "ws \<noteq> [] \<Longrightarrow> join (w # ws) sep = w @ sep @ join ws sep"
  by (cases ws) simp_all

lemma splitAcc_cong:
  "\<forall>c\<in>set s. p c = q c \<Longrightarrow> splitAcc p cur s = splitAcc q cur s"
  by (induction s arbitrary: cur) simp_all

lemma join_splitAcc: "join (splitAcc (\<lambda>c. c = sep) cur s) [sep] = cur @ s"
proof (induction s arbitrary: cur)
  case Nil
  show ?case by simp
next
  case (Cons c s)
  show ?case
  proof (cases "c = sep")
    case True
    then show ?thesis
      using Cons.IH [of "[]"] by (simp add: join_Cons splitAcc_nonempty)
  next
    case False
    then show ?thesis
      using Cons.IH [of "cur @ [c]"] by simp
  qed
qed

text \<open>\<open>split\<close> is the inverse of \<open>join\<close> on the separator, and no piece contains the
  separator: the two facts that say what "splitting at \<open>sep\<close>" means.\<close>

lemma join_split: "join (split s sep) [sep] = s"
  by (simp add: split_def join_splitAcc)

lemma splitAcc_pieces:
  "w \<in> set (splitAcc isSep cur s) \<Longrightarrow> \<forall>c\<in>set cur. \<not> isSep c \<Longrightarrow> \<forall>c\<in>set w. \<not> isSep c"
proof (induction s arbitrary: cur)
  case Nil
  then show ?case by simp
next
  case (Cons c s)
  show ?case
  proof (cases "isSep c")
    case True
    with Cons.prems have "w = cur \<or> w \<in> set (splitAcc isSep [] s)" by simp
    then show ?thesis
      using Cons.prems(2) Cons.IH [of "[]"] by auto
  next
    case False
    with Cons.prems have "w \<in> set (splitAcc isSep (cur @ [c]) s)" by simp
    moreover have "\<forall>x\<in>set (cur @ [c]). \<not> isSep x" using False Cons.prems(2) by simp
    ultimately show ?thesis by (rule Cons.IH)
  qed
qed

lemma split_pieces: "w \<in> set (split s sep) \<Longrightarrow> sep \<notin> set w"
  using splitAcc_pieces [of w "\<lambda>c. c = sep" "[]" s] by (auto simp add: split_def)

subsection \<open>Lower-casing and white space\<close>

lemma of_char_toLowerChar:
  "of_char (toLowerChar c) =
     (if 65 \<le> (of_char c :: nat) \<and> (of_char c :: nat) \<le> 90 then of_char c + 32
      else (of_char c :: nat))"
  by (simp add: toLowerChar_def Let_def)

lemma isWhiteSpace_toLowerChar: "isWhiteSpace (toLowerChar c) = isWhiteSpace c"
  unfolding isWhiteSpace_def Let_def of_char_toLowerChar by auto

lemma isWhiteSpace_space: "isWhiteSpace CHR '' ''"
  by (simp add: isWhiteSpace_def)

lemma toLowerChar_space: "toLowerChar c = CHR '' '' \<longleftrightarrow> c = CHR '' ''"
proof
  assume "toLowerChar c = CHR '' ''"
  then have "(of_char (toLowerChar c) :: nat) = 32" by simp
  then have "(of_char c :: nat) = 32"
    unfolding of_char_toLowerChar by (auto split: if_splits)
  then have "(of_char c :: nat) = of_char CHR '' ''" by simp
  then show "c = CHR '' ''" by (simp only: of_char_eq_iff)
next
  assume "c = CHR '' ''"
  then show "toLowerChar c = CHR '' ''" by (simp add: toLowerChar_def)
qed

subsection \<open>Rendering numbers\<close>

lemma digit_table: "list_all (\<lambda>n. char_of (48 + n) \<in> set ''0123456789'') [0..<10]"
  by code_simp

lemma digit_char: "(n::nat) < 10 \<Longrightarrow> char_of (48 + n) \<in> set ''0123456789''"
proof -
  assume "n < 10"
  then have "n \<in> set [0..<10]" by simp
  with digit_table show ?thesis unfolding list_all_iff by blast
qed

lemma set_single_sub: "c \<in> D \<Longrightarrow> set [c] \<subseteq> D"
  by simp

lemma set_snoc_sub: "set xs \<subseteq> D \<Longrightarrow> c \<in> D \<Longrightarrow> set (xs @ [c]) \<subseteq> D"
  by simp

lemma set_cons_sub: "set xs \<subseteq> set ys \<Longrightarrow> set (y # xs) \<subseteq> set (y # ys)"
  by auto

lemma showNat_digits: "set (showNat n) \<subseteq> set ''0123456789''"
proof (induction n rule: showNat.induct)
  case (1 n)
  show ?case
  proof (cases "n < 10")
    case True
    then have eq: "showNat n = [char_of (48 + n)]"
      by (subst showNat.simps) (simp only: if_True)
    have "char_of (48 + n) \<in> set ''0123456789''"
      using True by (rule digit_char)
    then show ?thesis
      unfolding eq by (rule set_single_sub)
  next
    case False
    then have eq: "showNat n = showNat (n div 10) @ [char_of (48 + n mod 10)]"
      by (subst showNat.simps) (simp only: if_False)
    have "n mod 10 < 10" by simp
    then have c: "char_of (48 + n mod 10) \<in> set ''0123456789''" by (rule digit_char)
    have "set (showNat (n div 10)) \<subseteq> set ''0123456789''"
      using False by (rule 1)
    then show ?thesis
      unfolding eq using c by (rule set_snoc_sub)
  qed
qed

lemma showNat_nonempty: "showNat n \<noteq> []"
  by (subst showNat.simps) (cases "n < 10", simp_all)

lemma showNumber_nonempty: "showNumber i \<noteq> []"
  by (simp add: showNumber_def showNat_nonempty)

lemma showNumber_chars: "set (showNumber i) \<subseteq> set ''-0123456789''"
proof (cases "i < 0")
  case True
  then have eq: "showNumber i = CHR ''-'' # showNat (nat (- i))" by (simp add: showNumber_def)
  show ?thesis
    unfolding eq using showNat_digits by (rule set_cons_sub)
next
  case False
  then have eq: "showNumber i = showNat (nat i)" by (simp add: showNumber_def)
  have "set (showNat (nat i)) \<subseteq> set ''0123456789''" by (rule showNat_digits)
  also have "\<dots> \<subseteq> set ''-0123456789''" by (rule set_subset_Cons)
  finally show ?thesis unfolding eq .
qed

text \<open>A pattern without digits and without a minus sign is found in a text around a
  rendered number exactly when it is found before or after the number.\<close>

lemma includesStr_number:
  assumes "list_all (\<lambda>c. \<not> List.member ''-0123456789'' c) p"
  shows "includesStr (a @ showNumber i @ b) p \<longleftrightarrow> includesStr a p \<or> includesStr b p"
proof -
  have "set ''-0123456789'' \<inter> set p = {}"
    using assms unfolding list_all_iff by auto
  then have "set (showNumber i) \<inter> set p = {}"
    using showNumber_chars [of i] by blast
  with showNumber_nonempty show ?thesis
    by (rule includesStr_around)
qed

section \<open>Properties of the classifier\<close>

subsection \<open>Real-time data override\<close>

text \<open>
  Claim C2. Whenever the lowercased, trimmed message contains one of the weather or news
  marker phrases, the classifier returns the chat context \<open>{null, 0, false}\<close>, whatever the
  history and whatever the previous context (present or absent).
\<close>

theorem realtime_override:
  assumes "p \<in> set weatherPatterns \<union> set newsPatterns"
    and "includesStr (trim (toLowerCase message)) p"
  shows "analyzeContext message conversationHistory previousContext =
           \<lparr>currentTopic = Null, attemptCount = 0, isLearningMode = False\<rparr>"
proof -
  have "isWeatherRequest (trim (toLowerCase message)) \<or> isNewsRequest (trim (toLowerCase message))"
    using assms unfolding isWeatherRequest_def isNewsRequest_def list_ex_iff by blast
  then show ?thesis
    by (simp add: analyzeContext_def Let_def)
qed

text \<open>The spec's scenario 5 is an instance.\<close>

theorem realtime_override_witness:
  "analyzeContext ''what's the weather in Paris'' []
     (Some \<lparr>currentTopic = Str ''merge sort'', attemptCount = 2, isLearningMode = True\<rparr>) =
   \<lparr>currentTopic = Null, attemptCount = 0, isLearningMode = False\<rparr>"
proof -
  have m: "''weather'' \<in> set weatherPatterns \<union> set newsPatterns"
    by (simp add: weatherPatterns_def)
  have i: "includesStr (trim (toLowerCase ''what's the weather in Paris'')) ''weather''"
    by code_simp
  show ?thesis
    by (rule realtime_override [OF m i])
qed

subsection \<open>General chat\<close>

text \<open>
  Claim C9. A message that is a greeting or acknowledgement (it equals a chat keyword, or
  starts with one followed by a space or an exclamation mark) and contains no
  new-learning-question phrase is classified as \<open>{null, 0, false}\<close> whatever the previous
  context; classifying it again, on the context just returned, gives \<open>{null, 0, false}\<close>
  again. The claim also excludes weather and news markers; the result is the same with
  them, so the theorem does not need that hypothesis.
\<close>

theorem general_chat_reset:
  assumes "isGeneralChat (trim (toLowerCase message))"
    and "\<not> isNewLearningQuestion (trim (toLowerCase message))"
  shows "analyzeContext message history1 previousContext =
           \<lparr>currentTopic = Null, attemptCount = 0, isLearningMode = False\<rparr> \<and>
         analyzeContext message history2 (Some (analyzeContext message history1 previousContext)) =
           \<lparr>currentTopic = Null, attemptCount = 0, isLearningMode = False\<rparr>"
  using assms by (simp add: analyzeContext_def Let_def)

theorem general_chat_reset_witness:
  "analyzeContext ''Hello!'' []
     (Some \<lparr>currentTopic = Str ''merge sort'', attemptCount = 2, isLearningMode = True\<rparr>) =
     \<lparr>currentTopic = Null, attemptCount = 0, isLearningMode = False\<rparr> \<and>
   analyzeContext ''Hello!'' [\<lparr>role = ''user'', text_msg = ''Hello!''\<rparr>]
     (Some (analyzeContext ''Hello!'' []
        (Some \<lparr>currentTopic = Str ''merge sort'', attemptCount = 2, isLearningMode = True\<rparr>))) =
     \<lparr>currentTopic = Null, attemptCount = 0, isLearningMode = False\<rparr>"
proof -
  have g: "isGeneralChat (trim (toLowerCase ''Hello!''))"
    by code_simp
  have n: "\<not> isNewLearningQuestion (trim (toLowerCase ''Hello!''))"
    by code_simp
  show ?thesis
    by (rule general_chat_reset [OF g n])
qed

subsection \<open>Direct solution request\<close>

text \<open>
  Claim C4. Let the message contain a solution-request phrase and fall into none of the
  earlier rules (real-time override, general chat, new learning question, return to a
  previous topic, follow-up). Then, for every previous context in learning mode, the
  classifier keeps \<open>currentTopic\<close>, sets \<open>attemptCount\<close> to the maximum of the previous
  count and 3, and stays in learning mode. With a previous count of 0 the result is 3.
\<close>

theorem solution_request_jump:
  assumes "m = trim (toLowerCase message)"
    and "isAskingForSolution m"
    and "isLearningMode prev"
    and "\<not> isWeatherRequest m" and "\<not> isNewsRequest m"
    and "\<not> (isGeneralChat m \<and> \<not> isNewLearningQuestion m)"
    and "\<not> (isNewLearningQuestion m \<and> \<not> isReturningToPrevious m)"
    and "\<not> (isReturningToPrevious m \<and> length conversationHistory > 0
             \<and> length (previousTopics conversationHistory) > 0)"
    and "\<not> (isFollowUp m \<and> truthy (currentTopic prev))"
  shows "analyzeContext message conversationHistory (Some prev) =
           \<lparr>currentTopic = currentTopic prev, attemptCount = max (attemptCount prev) 3,
            isLearningMode = True\<rparr>"
  using assms by (auto simp add: analyzeContext_def laterRules_def Let_def)

theorem solution_request_jump_witness:
  "analyzeContext ''just give me the answer'' []
     (Some \<lparr>currentTopic = Str ''merge sort'', attemptCount = 0, isLearningMode = True\<rparr>) =
   \<lparr>currentTopic = Str ''merge sort'', attemptCount = 3, isLearningMode = True\<rparr>"
proof -
  let ?m = "trim (toLowerCase ''just give me the answer'')"
  let ?prev = "\<lparr>currentTopic = Str ''merge sort'', attemptCount = 0, isLearningMode = True\<rparr>"
  have h1: "isAskingForSolution ?m" by code_simp
  have h2: "isLearningMode ?prev" by simp
  have h3: "\<not> isWeatherRequest ?m" by code_simp
  have h4: "\<not> isNewsRequest ?m" by code_simp
  have h5: "\<not> (isGeneralChat ?m \<and> \<not> isNewLearningQuestion ?m)" by code_simp
  have h6: "\<not> (isNewLearningQuestion ?m \<and> \<not> isReturningToPrevious ?m)" by code_simp
  have h7: "\<not> (isReturningToPrevious ?m \<and> length ([]::Message list) > 0
             \<and> length (previousTopics []) > 0)" by simp
  have h8: "\<not> (isFollowUp ?m \<and> truthy (currentTopic ?prev))" by code_simp
  show ?thesis
    using solution_request_jump [OF refl h1 h2 h3 h4 h5 h6 h7 h8] by simp
qed

subsection \<open>Genuine attempt\<close>

text \<open>
  Claim C7 as stated fails on a previous context whose topic is the empty string. Topic
  extraction can return the empty string ("how to do it" has no word longer than three
  letters), and the new-learning-question rule stores it as the topic; the guard
  \<^verbatim>\<open>previousContext?.currentTopic\<close> of the attempt rule then takes the topic as absent,
  and the attempt that follows is not counted.
\<close>

theorem genuine_attempt_counterexample:
  "analyzeContext ''how to do it'' [] None =
     \<lparr>currentTopic = Str [], attemptCount = 0, isLearningMode = True\<rparr> \<and>
   isGenuineAttempt (trim (toLowerCase ''I tried recursion but got stuck'')) \<and>
   analyzeContext ''I tried recursion but got stuck''
     [\<lparr>role = ''user'', text_msg = ''how to do it''\<rparr>]
     (Some \<lparr>currentTopic = Str [], attemptCount = 0, isLearningMode = True\<rparr>) =
     \<lparr>currentTopic = Str [], attemptCount = 0, isLearningMode = True\<rparr>"
  by code_simp

text \<open>
  Claim C7, amended. Let the message contain an attempt or uncertainty marker and fall
  into none of the earlier rules (real-time override, general chat, new learning question,
  return to a previous topic, follow-up, solution request). Then, for every previous
  context in learning mode whose topic is a non-empty string, the classifier returns the
  same topic, the attempt count plus one, and learning mode.
\<close>

theorem genuine_attempt_increment:
  assumes "m = trim (toLowerCase message)"
    and "isGenuineAttempt m"
    and "isLearningMode prev" and "truthy (currentTopic prev)"
    and "\<not> isWeatherRequest m" and "\<not> isNewsRequest m"
    and "\<not> (isGeneralChat m \<and> \<not> isNewLearningQuestion m)"
    and "\<not> (isNewLearningQuestion m \<and> \<not> isReturningToPrevious m)"
    and "\<not> (isReturningToPrevious m \<and> length conversationHistory > 0
             \<and> length (previousTopics conversationHistory) > 0)"
    and "\<not> isFollowUp m"
    and "\<not> isAskingForSolution m"
  shows "analyzeContext message conversationHistory (Some prev) =
           \<lparr>currentTopic = currentTopic prev, attemptCount = attemptCount prev + 1,
            isLearningMode = True\<rparr>"
  using assms by (auto simp add: analyzeContext_def laterRules_def Let_def)

text \<open>The spec's scenario 2.\<close>

theorem genuine_attempt_increment_witness:
  "analyzeContext ''I tried recursion but got stuck'' []
     (Some \<lparr>currentTopic = Str ''merge sort'', attemptCount = 0, isLearningMode = True\<rparr>) =
   \<lparr>currentTopic = Str ''merge sort'', attemptCount = 1, isLearningMode = True\<rparr>"
proof -
  let ?m = "trim (toLowerCase ''I tried recursion but got stuck'')"
  let ?prev = "\<lparr>currentTopic = Str ''merge sort'', attemptCount = 0, isLearningMode = True\<rparr>"
  have h1: "isGenuineAttempt ?m" by code_simp
  have h2: "isLearningMode ?prev" by simp
  have h2': "truthy (currentTopic ?prev)" by simp
  have h3: "\<not> isWeatherRequest ?m" by code_simp
  have h4: "\<not> isNewsRequest ?m" by code_simp
  have h5: "\<not> (isGeneralChat ?m \<and> \<not> isNewLearningQuestion ?m)" by code_simp
  have h6: "\<not> (isNewLearningQuestion ?m \<and> \<not> isReturningToPrevious ?m)" by code_simp
  have h7: "\<not> (isReturningToPrevious ?m \<and> length ([]::Message list) > 0
             \<and> length (previousTopics []) > 0)" by simp
  have h8: "\<not> isFollowUp ?m" by code_simp
  have h9: "\<not> isAskingForSolution ?m" by code_simp
  show ?thesis
    using genuine_attempt_increment [OF refl h1 h2 h2' h3 h4 h5 h6 h7 h8 h9] by simp
qed

subsection \<open>Follow-up\<close>

text \<open>
  Claim C1 as stated fails. Its own scenario, "what about time complexity?" on
  \<open>{merge sort, 1, true}\<close>, contains the follow-up marker "time complexity", but "what about"
  is a learning keyword and the new-learning-question rule comes first: the topic is
  replaced and the count reset to 0. And a previous topic that is the empty string is not
  null, yet the follow-up guard treats it as absent: a later rule then changes the count.
\<close>

theorem follow_up_scenario_counterexample:
  "analyzeContext ''what about time complexity?'' []
     (Some \<lparr>currentTopic = Str ''merge sort'', attemptCount = 1, isLearningMode = True\<rparr>) =
     \<lparr>currentTopic = Str ''time complexity?'', attemptCount = 0, isLearningMode = True\<rparr> \<and>
   isFollowUp (trim (toLowerCase ''what about time complexity?'')) \<and>
   analyzeContext ''just give me the time complexity'' []
     (Some \<lparr>currentTopic = Str [], attemptCount = 0, isLearningMode = True\<rparr>) =
     \<lparr>currentTopic = Str [], attemptCount = 3, isLearningMode = True\<rparr> \<and>
   isFollowUp (trim (toLowerCase ''just give me the time complexity''))"
  by code_simp

text \<open>
  Claim C1, amended. Let the message contain a follow-up marker and fall into none of the
  earlier rules (real-time override, general chat, new learning question, return to a
  previous topic). Then, for every previous context whose topic is a non-empty string,
  the classifier returns that topic with the attempt count unchanged, in learning mode.
\<close>

theorem follow_up_keeps_attempts:
  assumes "m = trim (toLowerCase message)"
    and "isFollowUp m"
    and "truthy (currentTopic prev)"
    and "\<not> isWeatherRequest m" and "\<not> isNewsRequest m"
    and "\<not> (isGeneralChat m \<and> \<not> isNewLearningQuestion m)"
    and "\<not> (isNewLearningQuestion m \<and> \<not> isReturningToPrevious m)"
    and "\<not> (isReturningToPrevious m \<and> length conversationHistory > 0
             \<and> length (previousTopics conversationHistory) > 0)"
  shows "analyzeContext message conversationHistory (Some prev) =
           \<lparr>currentTopic = currentTopic prev, attemptCount = attemptCount prev,
            isLearningMode = True\<rparr>"
  using assms by (auto simp add: analyzeContext_def laterRules_def Let_def)

theorem follow_up_keeps_attempts_witness:
  "analyzeContext ''what is the time complexity?'' []
     (Some \<lparr>currentTopic = Str ''merge sort'', attemptCount = 1, isLearningMode = True\<rparr>) =
   \<lparr>currentTopic = Str ''merge sort'', attemptCount = 1, isLearningMode = True\<rparr>"
proof -
  let ?m = "trim (toLowerCase ''what is the time complexity?'')"
  let ?prev = "\<lparr>currentTopic = Str ''merge sort'', attemptCount = 1, isLearningMode = True\<rparr>"
  have h1: "isFollowUp ?m" by code_simp
  have h2: "truthy (currentTopic ?prev)" by simp
  have h3: "\<not> isWeatherRequest ?m" by code_simp
  have h4: "\<not> isNewsRequest ?m" by code_simp
  have h5: "\<not> (isGeneralChat ?m \<and> \<not> isNewLearningQuestion ?m)" by code_simp
  have h6: "\<not> (isNewLearningQuestion ?m \<and> \<not> isReturningToPrevious ?m)" by code_simp
  have h7: "\<not> (isReturningToPrevious ?m \<and> length ([]::Message list) > 0
             \<and> length (previousTopics []) > 0)" by simp
  show ?thesis
    using follow_up_keeps_attempts [OF refl h1 h2 h3 h4 h5 h6 h7] by simp
qed

subsection \<open>The topic invariant\<close>

text \<open>
  Claim C3 as stated fails: the default rule hands the previous context back as it is, so
  a previous context with a topic outside learning mode comes out unchanged.
\<close>

theorem topic_invariant_counterexample:
  "analyzeContext ''hmm'' []
     (Some \<lparr>currentTopic = Str ''merge sort'', attemptCount = 0, isLearningMode = False\<rparr>) =
   \<lparr>currentTopic = Str ''merge sort'', attemptCount = 0, isLearningMode = False\<rparr>"
  by code_simp

text \<open>
  Claim C3, amended. For every message and history, and every previous context that is
  absent or itself has a null topic whenever it is not in learning mode: if the returned
  context is not in learning mode then its topic is null. The classifier preserves the
  invariant, so every context obtained by threading its results from a first turn has it.
\<close>

theorem topic_invariant_preserved:
  assumes "case previousContext of None \<Rightarrow> True
           | Some prev \<Rightarrow> (\<not> isLearningMode prev \<longrightarrow> currentTopic prev = Null)"
  shows "\<not> isLearningMode (analyzeContext message conversationHistory previousContext) \<longrightarrow>
         currentTopic (analyzeContext message conversationHistory previousContext) = Null"
  using assms
  by (auto simp add: analyzeContext_def laterRules_def noContext_def Let_def split: option.splits)

theorem topic_invariant_preserved_witness:
  "\<not> isLearningMode (analyzeContext ''hmm'' []
        (Some \<lparr>currentTopic = Null, attemptCount = 0, isLearningMode = False\<rparr>)) \<and>
   currentTopic (analyzeContext ''hmm'' []
        (Some \<lparr>currentTopic = Null, attemptCount = 0, isLearningMode = False\<rparr>)) = Null"
proof -
  let ?prev = "\<lparr>currentTopic = Null, attemptCount = 0, isLearningMode = False\<rparr>"
  have a: "case Some ?prev of None \<Rightarrow> True
           | Some prev \<Rightarrow> (\<not> isLearningMode prev \<longrightarrow> currentTopic prev = Null)" by simp
  have n: "\<not> isLearningMode (analyzeContext ''hmm'' [] (Some ?prev))" by code_simp
  show ?thesis
    using topic_invariant_preserved [OF a, of "''hmm''" "[]"] n by simp
qed

subsection \<open>Returning to a previous topic\<close>

lemma previousTopics_nonempty: "t \<in> set (previousTopics h) \<Longrightarrow> t \<noteq> []"
  by (simp add: previousTopics_def)

lemma relevantTopic_found:
  assumes "find (\<lambda>t. includesStr m (firstWord t)) pts = Some t" and "t \<noteq> []"
  shows "relevantTopic m pts = Str t"
  using assms by (simp add: relevantTopic_def)

lemma relevantTopic_fallback:
  assumes "find (\<lambda>t. includesStr m (firstWord t)) pts = None"
  shows "relevantTopic m pts = at_index pts (int (length pts) - 2)"
  using assms by (simp add: relevantTopic_def)

lemma find_in_set: "find P xs = Some x \<Longrightarrow> x \<in> set xs"
  by (induction xs) (auto split: if_splits)

text \<open>When the rule applies: a back-reference phrase, no rule before it, and at least one
  topic extracted from the user's earlier messages.\<close>

lemma returning_rule:
  assumes "m = trim (toLowerCase message)"
    and "isReturningToPrevious m"
    and "\<not> isWeatherRequest m" and "\<not> isNewsRequest m"
    and "\<not> (isGeneralChat m \<and> \<not> isNewLearningQuestion m)"
    and "previousTopics conversationHistory \<noteq> []"
  shows "analyzeContext message conversationHistory previousContext =
           \<lparr>currentTopic = relevantTopic m (previousTopics conversationHistory),
            attemptCount = 0, isLearningMode = True\<rparr>"
proof -
  have "conversationHistory \<noteq> []"
    using assms(6) by (auto simp add: previousTopics_def)
  then show ?thesis
    using assms by (simp add: analyzeContext_def Let_def)
qed

text \<open>
  Claim C10. There is an input on which the returned \<open>currentTopic\<close> is neither a string
  nor null. Whenever the message contains a back-reference phrase (and no earlier rule
  takes it), the history yields exactly one non-empty topic, and the first word of that
  topic does not occur in the message, the fallback reads index \<open>1 - 2 = -1\<close> of the topic
  list and the classifier returns \<open>{undefined, 0, true}\<close>.
\<close>

theorem returning_single_topic_undefined:
  assumes "m = trim (toLowerCase message)"
    and "isReturningToPrevious m"
    and "\<not> isWeatherRequest m" and "\<not> isNewsRequest m"
    and "\<not> (isGeneralChat m \<and> \<not> isNewLearningQuestion m)"
    and "previousTopics conversationHistory = [t]"
    and "\<not> includesStr m (firstWord t)"
  shows "analyzeContext message conversationHistory previousContext =
           \<lparr>currentTopic = Undefined, attemptCount = 0, isLearningMode = True\<rparr>"
proof -
  have "find (\<lambda>t. includesStr m (firstWord t)) [t] = None"
    using assms(7) by simp
  then have "relevantTopic m [t] = at_index [t] (int (length [t]) - 2)"
    by (rule relevantTopic_fallback)
  then have "relevantTopic m [t] = Undefined"
    by (simp add: at_index_def)
  then show ?thesis
    using returning_rule [OF assms(1-5)] assms(6) by simp
qed

theorem returning_single_topic_undefined_witness:
  "analyzeContext ''lets go back to that''
     [\<lparr>role = ''user'', text_msg = ''how do I implement merge sort''\<rparr>,
      \<lparr>role = ''assistant'', text_msg = ''What have you tried so far?''\<rparr>] None =
   \<lparr>currentTopic = Undefined, attemptCount = 0, isLearningMode = True\<rparr>"
proof -
  let ?m = "trim (toLowerCase ''lets go back to that'')"
  let ?h = "[\<lparr>role = ''user'', text_msg = ''how do I implement merge sort''\<rparr>,
      \<lparr>role = ''assistant'', text_msg = ''What have you tried so far?''\<rparr>]"
  have h1: "isReturningToPrevious ?m" by code_simp
  have h3: "\<not> isWeatherRequest ?m" by code_simp
  have h4: "\<not> isNewsRequest ?m" by code_simp
  have h5: "\<not> (isGeneralChat ?m \<and> \<not> isNewLearningQuestion ?m)" by code_simp
  have h6: "previousTopics ?h = [''implement merge sort'']" by code_simp
  have h7: "\<not> includesStr ?m (firstWord ''implement merge sort'')" by code_simp
  show ?thesis
    by (rule returning_single_topic_undefined [OF refl h1 h3 h4 h5 h6 h7])
qed

text \<open>
  Claim C8 as stated fails, in three ways. A greeting that contains a back-reference phrase
  is reset by the general-chat rule. A non-empty history from which no topic can be
  extracted leaves the message to the later rules. And the fallback takes the
  second-to-last entry of the topic list as it stands: with the topics
  \<open>[merge, quick, quick]\<close> it returns the latest topic, not the one before it.
\<close>

theorem returning_topic_counterexample:
  "analyzeContext ''ok back to merge sort''
     [\<lparr>role = ''user'', text_msg = ''how do I implement merge sort''\<rparr>] None =
     \<lparr>currentTopic = Null, attemptCount = 0, isLearningMode = False\<rparr> \<and>
   analyzeContext ''lets go back to that''
     [\<lparr>role = ''user'', text_msg = ''hi''\<rparr>] None =
     \<lparr>currentTopic = Null, attemptCount = 0, isLearningMode = False\<rparr> \<and>
   previousTopics
     [\<lparr>role = ''user'', text_msg = ''implement merge sort''\<rparr>,
      \<lparr>role = ''user'', text_msg = ''implement quick sort''\<rparr>,
      \<lparr>role = ''user'', text_msg = ''implement quick sort''\<rparr>] =
     [''implement merge sort'', ''implement quick sort'', ''implement quick sort''] \<and>
   analyzeContext ''lets go back to the earlier one''
     [\<lparr>role = ''user'', text_msg = ''implement merge sort''\<rparr>,
      \<lparr>role = ''user'', text_msg = ''implement quick sort''\<rparr>,
      \<lparr>role = ''user'', text_msg = ''implement quick sort''\<rparr>] None =
     \<lparr>currentTopic = Str ''implement quick sort'', attemptCount = 0, isLearningMode = True\<rparr>"
  by code_simp

text \<open>
  Claim C8, amended. Let the message contain a back-reference phrase and no
  new-learning-question phrase, no weather or news marker, and not be a greeting; let
  \<open>pts\<close>, the non-empty topics extracted from the user's earlier messages, oldest first, be
  non-empty. If the first word of some topic of \<open>pts\<close> occurs in the message, the
  classifier returns \<open>{t, 0, true}\<close> for the oldest such topic \<open>t\<close>; otherwise, if \<open>pts\<close> has
  at least two entries, it returns \<open>{t, 0, true}\<close> for the second-to-last entry \<open>t\<close> of
  \<open>pts\<close>, repetitions counted.
\<close>

theorem returning_topic:
  assumes "m = trim (toLowerCase message)"
    and "isReturningToPrevious m"
    and "\<not> isNewLearningQuestion m"
    and "\<not> isWeatherRequest m" and "\<not> isNewsRequest m"
    and "\<not> isGeneralChat m"
    and "pts = previousTopics conversationHistory"
    and "pts \<noteq> []"
    and "list_ex (\<lambda>t. includesStr m (firstWord t)) pts \<or> 2 \<le> length pts"
  shows "analyzeContext message conversationHistory previousContext =
           \<lparr>currentTopic =
              (case find (\<lambda>t. includesStr m (firstWord t)) pts of
                 Some t \<Rightarrow> Str t
               | None \<Rightarrow> Str (pts ! (length pts - 2))),
            attemptCount = 0, isLearningMode = True\<rparr>"
proof -
  have rule: "analyzeContext message conversationHistory previousContext =
      \<lparr>currentTopic = relevantTopic m pts, attemptCount = 0, isLearningMode = True\<rparr>"
    using returning_rule [of m message conversationHistory previousContext] assms by simp
  show ?thesis
  proof (cases "find (\<lambda>t. includesStr m (firstWord t)) pts")
    case None
    then have "\<not> list_ex (\<lambda>t. includesStr m (firstWord t)) pts"
      by (simp add: find_None_iff list_ex_iff)
    then have len: "2 \<le> length pts"
      using assms(9) by simp
    have "relevantTopic m pts = at_index pts (int (length pts) - 2)"
      using None by (rule relevantTopic_fallback)
    also have "\<dots> = Str (pts ! (length pts - 2))"
      using len by (simp add: at_index_def nat_diff_distrib')
    finally show ?thesis
      using rule None by simp
  next
    case (Some t)
    then have "t \<in> set pts"
      by (rule find_in_set)
    then have "t \<noteq> []"
      using assms(7) previousTopics_nonempty by simp
    then have "relevantTopic m pts = Str t"
      using Some relevantTopic_found by simp
    then show ?thesis
      using rule Some by simp
  qed
qed

text \<open>Two instances: a topic named in the message, and the fallback.\<close>

theorem returning_topic_witness:
  "analyzeContext ''lets go back to merge sort please''
     [\<lparr>role = ''user'', text_msg = ''merge sort algorithm steps''\<rparr>,
      \<lparr>role = ''assistant'', text_msg = ''What have you tried so far?''\<rparr>,
      \<lparr>role = ''user'', text_msg = ''implement quick sort''\<rparr>] None =
     \<lparr>currentTopic = Str ''merge sort algorithm'', attemptCount = 0, isLearningMode = True\<rparr> \<and>
   analyzeContext ''lets go back to the earlier one''
     [\<lparr>role = ''user'', text_msg = ''merge sort algorithm steps''\<rparr>,
      \<lparr>role = ''assistant'', text_msg = ''What have you tried so far?''\<rparr>,
      \<lparr>role = ''user'', text_msg = ''implement quick sort''\<rparr>] None =
     \<lparr>currentTopic = Str ''merge sort algorithm'', attemptCount = 0, isLearningMode = True\<rparr>"
proof -
  let ?m = "trim (toLowerCase ''lets go back to merge sort please'')"
  let ?m' = "trim (toLowerCase ''lets go back to the earlier one'')"
  let ?h = "[\<lparr>role = ''user'', text_msg = ''merge sort algorithm steps''\<rparr>,
      \<lparr>role = ''assistant'', text_msg = ''What have you tried so far?''\<rparr>,
      \<lparr>role = ''user'', text_msg = ''implement quick sort''\<rparr>]"
  let ?pts = "[''merge sort algorithm'', ''implement quick sort'']"
  have h1: "isReturningToPrevious ?m" by code_simp
  have h2: "\<not> isNewLearningQuestion ?m" by code_simp
  have h3: "\<not> isWeatherRequest ?m" by code_simp
  have h4: "\<not> isNewsRequest ?m" by code_simp
  have h5: "\<not> isGeneralChat ?m" by code_simp
  have h6: "?pts = previousTopics ?h" by code_simp
  have h7: "?pts \<noteq> []" by simp
  have h8: "list_ex (\<lambda>t. includesStr ?m (firstWord t)) ?pts \<or> 2 \<le> length ?pts" by simp
  have f: "find (\<lambda>t. includesStr ?m (firstWord t)) ?pts = Some ''merge sort algorithm''"
    by code_simp
  have k1: "isReturningToPrevious ?m'" by code_simp
  have k2: "\<not> isNewLearningQuestion ?m'" by code_simp
  have k3: "\<not> isWeatherRequest ?m'" by code_simp
  have k4: "\<not> isNewsRequest ?m'" by code_simp
  have k5: "\<not> isGeneralChat ?m'" by code_simp
  have k8: "list_ex (\<lambda>t. includesStr ?m' (firstWord t)) ?pts \<or> 2 \<le> length ?pts" by simp
  have g: "find (\<lambda>t. includesStr ?m' (firstWord t)) ?pts = None"
    by code_simp
  show ?thesis
    using returning_topic [OF refl h1 h2 h3 h4 h5 h6 h7 h8, of None]
      returning_topic [OF refl k1 k2 k3 k4 k5 h6 h7 k8, of None] f g
    by simp
qed

subsection \<open>Topic extraction and the new-learning-question rule\<close>

text \<open>
  Claim C6 as stated fails: the source cuts the lowercased message at the space character
  only, not at white space in general. A tab is not a separator, so "merge<TAB>sort" stays
  one word of the topic.
\<close>

theorem topic_extraction_counterexample:
  "extractTopic (''implement merge'' @ [CHR 0x09] @ ''sort'') =
     ''implement merge'' @ [CHR 0x09] @ ''sort'' \<and>
   extractTopicSpec (''implement merge'' @ [CHR 0x09] @ ''sort'') = ''implement merge sort''"
  by code_simp

lemma extractTopic_refines:
  assumes "\<forall>c\<in>set msg. isWhiteSpace c \<longrightarrow> c = CHR '' ''"
  shows "extractTopic msg = extractTopicSpec msg"
proof -
  have "\<forall>c\<in>set (toLowerCase msg). (c = CHR '' '') = isWhiteSpace c"
    using assms
    by (auto simp add: toLowerCase_def isWhiteSpace_toLowerChar toLowerChar_space
        isWhiteSpace_space)
  then have "splitAcc (\<lambda>c. c = CHR '' '') [] (toLowerCase msg) =
      splitAcc isWhiteSpace [] (toLowerCase msg)"
    by (rule splitAcc_cong)
  then show ?thesis
    by (simp add: extractTopic_def extractTopicSpec_def split_def Let_def)
qed

lemma new_question_rule:
  assumes "m = trim (toLowerCase message)"
    and "isNewLearningQuestion m" and "\<not> isReturningToPrevious m"
    and "\<not> isWeatherRequest m" and "\<not> isNewsRequest m"
  shows "analyzeContext message conversationHistory previousContext =
           \<lparr>currentTopic = Str (extractTopic message), attemptCount = 0, isLearningMode = True\<rparr>"
  using assms by (simp add: analyzeContext_def Let_def)

text \<open>
  Claim C6, amended. Topic extraction lowercases the message, cuts it at every space
  character (and at no other white space), discards the stop-words and all words of
  length \<open>\<le> 3\<close>, and joins the first three remaining words with single spaces; the empty
  string is a possible result. So on every message whose only white space is the space
  character it is the extraction the claim describes. A message with a learning keyword,
  no back-reference phrase and no weather or news marker is classified as
  \<open>{extractTopic message, 0, true}\<close>; "how do I implement merge sort" gives
  \<open>{implement merge sort, 0, true}\<close>.
\<close>

theorem topic_extraction:
  "extractTopic message =
     join (take 3 (filter (\<lambda>w. w \<notin> set stopWords \<and> 3 < length w)
                     (split (toLowerCase message) CHR '' ''))) '' '' \<and>
   ((\<forall>c\<in>set message. isWhiteSpace c \<longrightarrow> c = CHR '' '') \<longrightarrow>
      extractTopic message = extractTopicSpec message) \<and>
   (isNewLearningQuestion (trim (toLowerCase message)) \<and>
    \<not> isReturningToPrevious (trim (toLowerCase message)) \<and>
    \<not> isWeatherRequest (trim (toLowerCase message)) \<and>
    \<not> isNewsRequest (trim (toLowerCase message)) \<longrightarrow>
      analyzeContext message conversationHistory previousContext =
        \<lparr>currentTopic = Str (extractTopic message), attemptCount = 0, isLearningMode = True\<rparr>)"
proof (intro conjI impI)
  show "extractTopic message =
     join (take 3 (filter (\<lambda>w. w \<notin> set stopWords \<and> 3 < length w)
                     (split (toLowerCase message) CHR '' ''))) '' ''"
    by (simp add: extractTopic_def Let_def)
next
  assume "\<forall>c\<in>set message. isWhiteSpace c \<longrightarrow> c = CHR '' ''"
  then show "extractTopic message = extractTopicSpec message"
    by (rule extractTopic_refines)
next
  assume "isNewLearningQuestion (trim (toLowerCase message)) \<and>
    \<not> isReturningToPrevious (trim (toLowerCase message)) \<and>
    \<not> isWeatherRequest (trim (toLowerCase message)) \<and>
    \<not> isNewsRequest (trim (toLowerCase message))"
  then show "analyzeContext message conversationHistory previousContext =
        \<lparr>currentTopic = Str (extractTopic message), attemptCount = 0, isLearningMode = True\<rparr>"
    using new_question_rule [OF refl] by blast
qed

text \<open>The spec's scenario 1, and a question whose topic is the empty string.\<close>

theorem topic_extraction_witness:
  "extractTopic ''how do I implement merge sort'' = ''implement merge sort'' \<and>
   extractTopicSpec ''how do I implement merge sort'' = ''implement merge sort'' \<and>
   analyzeContext ''how do I implement merge sort'' [] None =
     \<lparr>currentTopic = Str ''implement merge sort'', attemptCount = 0, isLearningMode = True\<rparr> \<and>
   analyzeContext ''how to do it'' [] None =
     \<lparr>currentTopic = Str [], attemptCount = 0, isLearningMode = True\<rparr>"
proof -
  let ?q = "''how do I implement merge sort''"
  let ?e = "''how to do it''"
  have ws: "\<forall>c\<in>set ?q. isWhiteSpace c \<longrightarrow> c = CHR '' ''"
    by code_simp
  have sp: "extractTopicSpec ?q = ''implement merge sort''"
    by code_simp
  have q: "isNewLearningQuestion (trim (toLowerCase ?q)) \<and>
    \<not> isReturningToPrevious (trim (toLowerCase ?q)) \<and>
    \<not> isWeatherRequest (trim (toLowerCase ?q)) \<and>
    \<not> isNewsRequest (trim (toLowerCase ?q))"
    by code_simp
  have e: "isNewLearningQuestion (trim (toLowerCase ?e)) \<and>
    \<not> isReturningToPrevious (trim (toLowerCase ?e)) \<and>
    \<not> isWeatherRequest (trim (toLowerCase ?e)) \<and>
    \<not> isNewsRequest (trim (toLowerCase ?e))"
    by code_simp
  have et: "extractTopic ?e = []"
    by code_simp
  have r1: "extractTopic ?q = extractTopicSpec ?q"
    by (rule mp [OF conjunct1 [OF conjunct2 [OF topic_extraction]] ws])
  have r2: "analyzeContext ?q [] None =
      \<lparr>currentTopic = Str (extractTopic ?q), attemptCount = 0, isLearningMode = True\<rparr>"
    by (rule mp [OF conjunct2 [OF conjunct2 [OF topic_extraction]] q])
  have r3: "analyzeContext ?e [] None =
      \<lparr>currentTopic = Str (extractTopic ?e), attemptCount = 0, isLearningMode = True\<rparr>"
    by (rule mp [OF conjunct2 [OF conjunct2 [OF topic_extraction]] e])
  have a1: "extractTopic ?q = ''implement merge sort''"
    using r1 sp by (rule trans)
  have a3: "analyzeContext ?q [] None =
      \<lparr>currentTopic = Str ''implement merge sort'', attemptCount = 0, isLearningMode = True\<rparr>"
    using r2 by (simp only: a1)
  have a4: "analyzeContext ?e [] None =
      \<lparr>currentTopic = Str [], attemptCount = 0, isLearningMode = True\<rparr>"
    using r3 by (simp only: et)
  from a1 sp a3 a4 show ?thesis
    by (intro conjI)
qed

section \<open>Properties of the prompt builder\<close>

lemma fourthTier_number_free:
  assumes "list_all (\<lambda>c. \<not> List.member ''-0123456789'' c) p"
  shows "includesStr (fourthTier n) p = includesStr (fourthTier 3) p"
  unfolding fourthTier_def by (simp only: includesStr_number [OF assms])

lemma markers_number_free:
  "list_all (\<lambda>p. list_all (\<lambda>c. \<not> List.member ''-0123456789'' c) p)
     (''isHint: true, isSolution: false'' # ''isHint: false, isSolution: true'' # tierMarkers)"
  by code_simp

text \<open>The fourth template literal, whatever number it renders.\<close>

lemma fourthTier_flags:
  "directsSolution (fourthTier n) \<and> \<not> directsHint (fourthTier n) \<and>
   tiersPresent (fourthTier n) = [False, False, False, True]"
proof -
  have nf: "\<And>p. p \<in> set (''isHint: true, isSolution: false'' #
        ''isHint: false, isSolution: true'' # tierMarkers)
      \<Longrightarrow> includesStr (fourthTier n) p = includesStr (fourthTier 3) p"
    using markers_number_free fourthTier_number_free unfolding list_all_iff by blast
  have "directsSolution (fourthTier n) = directsSolution (fourthTier 3)"
    unfolding directsSolution_def by (rule nf) simp
  moreover have "directsHint (fourthTier n) = directsHint (fourthTier 3)"
    unfolding directsHint_def by (rule nf) simp
  moreover have "tiersPresent (fourthTier n) = tiersPresent (fourthTier 3)"
    unfolding tiersPresent_def by (rule map_cong) (simp_all add: nf)
  moreover have "directsSolution (fourthTier 3) \<and> \<not> directsHint (fourthTier 3) \<and>
      tiersPresent (fourthTier 3) = [False, False, False, True]"
    by code_simp
  ultimately show ?thesis by simp
qed

lemma firstTier_flags:
  "directsHint firstTier \<and> \<not> directsSolution firstTier \<and>
   tiersPresent firstTier = [True, False, False, False]"
  by code_simp

lemma secondTier_flags:
  "directsHint (secondTier 1) \<and> \<not> directsSolution (secondTier 1) \<and>
   tiersPresent (secondTier 1) = [False, True, False, False]"
  by code_simp

lemma thirdTier_flags:
  "directsHint (thirdTier 2) \<and> \<not> directsSolution (thirdTier 2) \<and>
   tiersPresent (thirdTier 2) = [False, False, True, False]"
  by code_simp

lemma basePrompt_plain:
  "\<not> includesStr basePrompt ''PROGRESSIVE GUIDANCE'' \<and> \<not> directsHint basePrompt \<and>
   \<not> directsSolution basePrompt \<and> tiersPresent basePrompt = [False, False, False, False]"
  by code_simp

text \<open>
  Claim C5. In learning mode the instruction is the base prompt, the learning header, the
  guidance text for the attempt count, and the closing note. The guidance text is exactly
  one of the four tiers, chosen by the attempt count alone: for 0 the conceptual hint, for
  1 the stronger hint, for 2 the pseudocode or roadmap, each asking for
  \<open>isHint: true, isSolution: false\<close>; for 3 and more the full solution, asking for
  \<open>isHint: false, isSolution: true\<close>. Each guidance text words its own tier and none of the
  other three. Outside learning mode the instruction is the base prompt alone, which has
  no guidance heading, no tier and no flag directive.
\<close>

theorem prompt_tiering:
  "(isLearningMode ctx \<longrightarrow>
      systemPrompt ctx =
        basePrompt @ learningHeader (currentTopic ctx) (attemptCount ctx) @
        progressiveGuidance (attemptCount ctx) @ importantNote) \<and>
   (attemptCount ctx = 0 \<longrightarrow>
      progressiveGuidance (attemptCount ctx) = firstTier \<and>
      tiersPresent (progressiveGuidance (attemptCount ctx)) = [True, False, False, False] \<and>
      directsHint (progressiveGuidance (attemptCount ctx)) \<and>
      \<not> directsSolution (progressiveGuidance (attemptCount ctx))) \<and>
   (attemptCount ctx = 1 \<longrightarrow>
      progressiveGuidance (attemptCount ctx) = secondTier 1 \<and>
      tiersPresent (progressiveGuidance (attemptCount ctx)) = [False, True, False, False] \<and>
      directsHint (progressiveGuidance (attemptCount ctx)) \<and>
      \<not> directsSolution (progressiveGuidance (attemptCount ctx))) \<and>
   (attemptCount ctx = 2 \<longrightarrow>
      progressiveGuidance (attemptCount ctx) = thirdTier 2 \<and>
      tiersPresent (progressiveGuidance (attemptCount ctx)) = [False, False, True, False] \<and>
      directsHint (progressiveGuidance (attemptCount ctx)) \<and>
      \<not> directsSolution (progressiveGuidance (attemptCount ctx))) \<and>
   (3 \<le> attemptCount ctx \<longrightarrow>
      progressiveGuidance (attemptCount ctx) = fourthTier (attemptCount ctx) \<and>
      tiersPresent (progressiveGuidance (attemptCount ctx)) = [False, False, False, True] \<and>
      \<not> directsHint (progressiveGuidance (attemptCount ctx)) \<and>
      directsSolution (progressiveGuidance (attemptCount ctx))) \<and>
   (\<not> isLearningMode ctx \<longrightarrow>
      systemPrompt ctx = basePrompt \<and>
      \<not> includesStr (systemPrompt ctx) ''PROGRESSIVE GUIDANCE'' \<and>
      tiersPresent (systemPrompt ctx) = [False, False, False, False] \<and>
      \<not> directsHint (systemPrompt ctx) \<and> \<not> directsSolution (systemPrompt ctx))"
proof -
  have learning: "isLearningMode ctx \<longrightarrow>
      systemPrompt ctx =
        basePrompt @ learningHeader (currentTopic ctx) (attemptCount ctx) @
        progressiveGuidance (attemptCount ctx) @ importantNote"
    by (simp add: systemPrompt_def)
  have t0: "attemptCount ctx = 0 \<longrightarrow>
      progressiveGuidance (attemptCount ctx) = firstTier \<and>
      tiersPresent (progressiveGuidance (attemptCount ctx)) = [True, False, False, False] \<and>
      directsHint (progressiveGuidance (attemptCount ctx)) \<and>
      \<not> directsSolution (progressiveGuidance (attemptCount ctx))"
    using firstTier_flags by (simp add: progressiveGuidance_def)
  have t1: "attemptCount ctx = 1 \<longrightarrow>
      progressiveGuidance (attemptCount ctx) = secondTier 1 \<and>
      tiersPresent (progressiveGuidance (attemptCount ctx)) = [False, True, False, False] \<and>
      directsHint (progressiveGuidance (attemptCount ctx)) \<and>
      \<not> directsSolution (progressiveGuidance (attemptCount ctx))"
    using secondTier_flags by (simp add: progressiveGuidance_def)
  have t2: "attemptCount ctx = 2 \<longrightarrow>
      progressiveGuidance (attemptCount ctx) = thirdTier 2 \<and>
      tiersPresent (progressiveGuidance (attemptCount ctx)) = [False, False, True, False] \<and>
      directsHint (progressiveGuidance (attemptCount ctx)) \<and>
      \<not> directsSolution (progressiveGuidance (attemptCount ctx))"
    using thirdTier_flags by (simp add: progressiveGuidance_def)
  have t3: "3 \<le> attemptCount ctx \<longrightarrow>
      progressiveGuidance (attemptCount ctx) = fourthTier (attemptCount ctx) \<and>
      tiersPresent (progressiveGuidance (attemptCount ctx)) = [False, False, False, True] \<and>
      \<not> directsHint (progressiveGuidance (attemptCount ctx)) \<and>
      directsSolution (progressiveGuidance (attemptCount ctx))"
    using fourthTier_flags [of "attemptCount ctx"] by (simp add: progressiveGuidance_def)
  have chat: "\<not> isLearningMode ctx \<longrightarrow>
      systemPrompt ctx = basePrompt \<and>
      \<not> includesStr (systemPrompt ctx) ''PROGRESSIVE GUIDANCE'' \<and>
      tiersPresent (systemPrompt ctx) = [False, False, False, False] \<and>
      \<not> directsHint (systemPrompt ctx) \<and> \<not> directsSolution (systemPrompt ctx)"
    using basePrompt_plain by (simp add: systemPrompt_def)
  from learning t0 t1 t2 t3 chat show ?thesis by (intro conjI)
qed

text \<open>A solution-tier context and a chat context.\<close>

theorem prompt_tiering_witness:
  "systemPrompt \<lparr>currentTopic = Str ''merge sort'', attemptCount = 3, isLearningMode = True\<rparr> =
     basePrompt @ learningHeader (Str ''merge sort'') 3 @ progressiveGuidance 3 @
     importantNote \<and>
   progressiveGuidance 3 = fourthTier 3 \<and>
   tiersPresent (progressiveGuidance 3) = [False, False, False, True] \<and>
   \<not> directsHint (progressiveGuidance 3) \<and> directsSolution (progressiveGuidance 3) \<and>
   systemPrompt \<lparr>currentTopic = Null, attemptCount = 0, isLearningMode = False\<rparr> = basePrompt"
proof -
  let ?c = "\<lparr>currentTopic = Str ''merge sort'', attemptCount = 3, isLearningMode = True\<rparr>"
  let ?d = "\<lparr>currentTopic = Null, attemptCount = 0, isLearningMode = False\<rparr>"
  have l: "isLearningMode ?c" by simp
  have n: "3 \<le> attemptCount ?c" by simp
  have d: "\<not> isLearningMode ?d" by simp
  have p1: "systemPrompt ?c =
      basePrompt @ learningHeader (currentTopic ?c) (attemptCount ?c) @
      progressiveGuidance (attemptCount ?c) @ importantNote"
    by (rule mp [OF conjunct1 [OF prompt_tiering] l])
  have p2: "progressiveGuidance (attemptCount ?c) = fourthTier (attemptCount ?c) \<and>
      tiersPresent (progressiveGuidance (attemptCount ?c)) = [False, False, False, True] \<and>
      \<not> directsHint (progressiveGuidance (attemptCount ?c)) \<and>
      directsSolution (progressiveGuidance (attemptCount ?c))"
    by (rule mp [OF conjunct1 [OF conjunct2 [OF conjunct2 [OF conjunct2 [OF conjunct2
        [OF prompt_tiering]]]]] n])
  have p3: "systemPrompt ?d = basePrompt"
    by (rule conjunct1 [OF mp [OF conjunct2 [OF conjunct2 [OF conjunct2 [OF conjunct2
        [OF conjunct2 [OF prompt_tiering]]]]] d]])
  have q1: "systemPrompt ?c =
      basePrompt @ learningHeader (Str ''merge sort'') 3 @ progressiveGuidance 3 @ importantNote"
    using p1 unfolding ConversationContext.select_convs .
  have q2: "progressiveGuidance 3 = fourthTier 3 \<and>
      tiersPresent (progressiveGuidance 3) = [False, False, False, True] \<and>
      \<not> directsHint (progressiveGuidance 3) \<and> directsSolution (progressiveGuidance 3)"
    using p2 unfolding ConversationContext.select_convs .
  from q1 q2 p3 show ?thesis by blast
qed

end
